theory Spec2Isabelle
  imports Complex_Main "HOL-Library.Sublist"
begin

section \<open>Python values\<close>

text \<open>
  The attribute values of a feature are JSON scalars as Python holds them after
  \<^verbatim>\<open>r.json()\<close>: \<^verbatim>\<open>None\<close>, booleans, unbounded integers, floats and strings.
  A float is modelled by the real number it denotes, or one of the three special
  values; rounding to the nearest double is not modelled, the range of a double is
  (see \<open>DBL_OVERFLOW\<close>). Strings are ASCII strings.
\<close>

datatype pyfloat = Fin real | PosInf | NegInf | NaN

datatype pyval = PNone | PBool bool | PInt int | PFloat pyfloat | PStr string

datatype pyexc =
    HTTPException int string
  | TypeError
  | ValueError
  | OverflowError
  | KeyError string
  | JSONDecodeError
  | RequestException
  | ValidationError "string list"

type_synonym pydict = "(string \<times> pyval) list"

text \<open>\<^verbatim>\<open>d.get(k)\<close>: the value, \<^verbatim>\<open>None\<close> when the key is missing.\<close>

definition dict_get :: "pydict \<Rightarrow> string \<Rightarrow> pyval" where
  "dict_get d k = (case map_of d k of None \<Rightarrow> PNone | Some v \<Rightarrow> v)"

text \<open>\<^verbatim>\<open>d.get(k, default)\<close>.\<close>

definition dict_get_default :: "pydict \<Rightarrow> string \<Rightarrow> pyval \<Rightarrow> pyval" where
  "dict_get_default d k dflt = (case map_of d k of None \<Rightarrow> dflt | Some v \<Rightarrow> v)"

text \<open>Truth value testing, as \<^verbatim>\<open>or\<close>, \<^verbatim>\<open>not\<close> and \<^verbatim>\<open>if\<close> apply it.\<close>

fun truthy :: "pyval \<Rightarrow> bool" where
  "truthy PNone = False"
| "truthy (PBool b) = b"
| "truthy (PInt n) = (n \<noteq> 0)"
| "truthy (PFloat (Fin r)) = (r \<noteq> 0)"
| "truthy (PFloat _) = True"
| "truthy (PStr s) = (s \<noteq> [])"

text \<open>\<^verbatim>\<open>a or b\<close>: the left operand when it is truthy, the right operand otherwise.\<close>

definition py_or :: "pyval \<Rightarrow> pyval \<Rightarrow> pyval" where
  "py_or a b = (if truthy a then a else b)"

subsection \<open>\<^verbatim>\<open>str()\<close>\<close>

definition digit_char :: "nat \<Rightarrow> char" where
  "digit_char d = char_of (48 + d)"

fun str_nat :: "nat \<Rightarrow> string" where
  "str_nat n = (if n < 10 then [digit_char n] else str_nat (n div 10) @ [digit_char (n mod 10)])"

definition str_int :: "int \<Rightarrow> string" where
  "str_int i = (if i < 0 then CHR ''-'' # str_nat (nat (- i)) else str_nat (nat i))"

text \<open>
  \<^verbatim>\<open>str(v)\<close>. The text of a float (its shortest round-trip form) is a parameter
  \<open>frepr\<close>: it depends on the double's bits, which the model does not hold.
\<close>

fun py_str :: "(pyfloat \<Rightarrow> string) \<Rightarrow> pyval \<Rightarrow> string" where
  "py_str frepr PNone = ''None''"
| "py_str frepr (PBool b) = (if b then ''True'' else ''False'')"
| "py_str frepr (PInt n) = str_int n"
| "py_str frepr (PFloat f) = frepr f"
| "py_str frepr (PStr s) = s"

subsection \<open>String operations\<close>

definition upper_char :: "char \<Rightarrow> char" where
  "upper_char c = (let n = (of_char c :: nat) in if 97 \<le> n \<and> n \<le> 122 then char_of (n - 32) else c)"

definition py_upper :: "string \<Rightarrow> string" where
  "py_upper s = map upper_char s"

text \<open>\<^verbatim>\<open>sep.join(xs)\<close>.\<close>

fun py_join :: "string \<Rightarrow> string list \<Rightarrow> string" where
  "py_join sep [] = []"
| "py_join sep [x] = x"
| "py_join sep (x # y # ys) = x @ sep @ py_join sep (y # ys)"

text \<open>\<^verbatim>\<open>needle in text\<close> on strings.\<close>

definition py_in :: "string \<Rightarrow> string \<Rightarrow> bool" where
  "py_in needle txt = sublist needle txt"

section \<open>Numeric conversion\<close>

text \<open>
  The least magnitude that no longer rounds to a finite double: the midpoint between the
  largest double \<open>2^1024 - 2^971\<close> and \<open>2^1024\<close>, which rounds to even, that is up.
\<close>

definition DBL_OVERFLOW :: int where
  "DBL_OVERFLOW = 2 ^ 1024 - 2 ^ 970"

text \<open>The float of a real: itself (rounding is not modelled), an infinity beyond the range.\<close>

definition fin_or_inf :: "real \<Rightarrow> pyfloat" where
  "fin_or_inf r =
     (if r \<ge> of_int DBL_OVERFLOW then PosInf
      else if r \<le> - of_int DBL_OVERFLOW then NegInf
      else Fin r)"

subsection \<open>\<^verbatim>\<open>float(s)\<close> for a string\<close>

definition is_space :: "char \<Rightarrow> bool" where
  "is_space c = (let n = (of_char c :: nat) in (9 \<le> n \<and> n \<le> 13) \<or> n = 32)"

definition is_digit :: "char \<Rightarrow> bool" where
  "is_digit c = (let n = (of_char c :: nat) in 48 \<le> n \<and> n \<le> 57)"

definition py_strip :: "string \<Rightarrow> string" where
  "py_strip s = rev (dropWhile is_space (rev (dropWhile is_space s)))"

text \<open>
  An underscore is accepted only between two digits; the accepted ones are dropped.
  The first argument is the character before (\<^verbatim>\<open>'\0'\<close> at the start).
\<close>

fun drop_underscores :: "char \<Rightarrow> string \<Rightarrow> string option" where
  "drop_underscores prev [] = (if prev = CHR ''_'' then None else Some [])"
| "drop_underscores prev (c # cs) =
     (if c = CHR ''_'' then
        (if is_digit prev then drop_underscores c cs else None)
      else if prev = CHR ''_'' \<and> \<not> is_digit c then None
      else map_option ((#) c) (drop_underscores c cs))"

definition nat_of_digits :: "string \<Rightarrow> nat" where
  "nat_of_digits ds = foldl (\<lambda>a c. 10 * a + (of_char c - 48)) 0 ds"

text \<open>An optional sign: whether it is a minus, and the rest.\<close>

fun take_sign :: "string \<Rightarrow> bool \<times> string" where
  "take_sign [] = (False, [])"
| "take_sign (c # cs) =
     (if c = CHR ''-'' then (True, cs)
      else if c = CHR ''+'' then (False, cs)
      else (False, c # cs))"

text \<open>\<open>m * 10 ^ e\<close> for an integer exponent.\<close>

definition scale10 :: "nat \<Rightarrow> int \<Rightarrow> real" where
  "scale10 m e = (if e \<ge> 0 then of_nat m * 10 ^ nat e else of_nat m / 10 ^ nat (- e))"

text \<open>
  The exponent part: absent (the empty rest), or \<^verbatim>\<open>e\<close>/\<^verbatim>\<open>E\<close>, an optional sign
  and at least one digit, up to the end of the text.
\<close>

definition parse_exponent :: "string \<Rightarrow> int option" where
  "parse_exponent s =
     (case s of
        [] \<Rightarrow> Some 0
      | c # cs \<Rightarrow>
          if c = CHR ''e'' \<or> c = CHR ''E'' then
            (let (neg, ds) = take_sign cs in
             if ds \<noteq> [] \<and> list_all is_digit ds
             then Some (if neg then - int (nat_of_digits ds) else int (nat_of_digits ds))
             else None)
          else None)"

text \<open>A decimal number without sign: digits, an optional point and digits, an exponent.\<close>

definition parse_decimal :: "string \<Rightarrow> real option" where
  "parse_decimal s =
     (let ip = takeWhile is_digit s;
          r1 = dropWhile is_digit s;
          (fp, r2) = (case r1 of
                        [] \<Rightarrow> ([], [])
                      | c # cs \<Rightarrow>
                          if c = CHR ''.'' then (takeWhile is_digit cs, dropWhile is_digit cs)
                          else ([], r1))
      in if ip = [] \<and> fp = [] then None
         else (case parse_exponent r2 of
                 None \<Rightarrow> None
               | Some e \<Rightarrow> Some (scale10 (nat_of_digits (ip @ fp)) (e - int (length fp)))))"

definition parse_float_body :: "string \<Rightarrow> pyfloat option" where
  "parse_float_body s =
     (let (neg, t) = take_sign s in
      case parse_decimal t of
        Some r \<Rightarrow> Some (fin_or_inf (if neg then - r else r))
      | None \<Rightarrow>
          (let u = py_upper t in
           if u = ''INF'' \<or> u = ''INFINITY'' then Some (if neg then NegInf else PosInf)
           else if u = ''NAN'' then Some NaN
           else None))"

definition float_of_str :: "string \<Rightarrow> pyexc + pyfloat" where
  "float_of_str s =
     (let t = py_strip s in
      if t = [] then Inl ValueError
      else (case drop_underscores (CHR 0x00) t of
              None \<Rightarrow> Inl ValueError
            | Some u \<Rightarrow>
                (case parse_float_body u of
                   None \<Rightarrow> Inl ValueError
                 | Some f \<Rightarrow> Inr f)))"

subsection \<open>\<^verbatim>\<open>float(v)\<close> and \<^verbatim>\<open>int(f)\<close>\<close>

fun py_float :: "pyval \<Rightarrow> pyexc + pyfloat" where
  "py_float PNone = Inl TypeError"
| "py_float (PBool b) = Inr (Fin (if b then 1 else 0))"
| "py_float (PInt n) =
     (if \<bar>n\<bar> \<ge> DBL_OVERFLOW then Inl OverflowError else Inr (Fin (of_int n)))"
| "py_float (PFloat f) = Inr f"
| "py_float (PStr s) = float_of_str s"

text \<open>\<^verbatim>\<open>int(f)\<close> truncates towards zero.\<close>

fun py_int_of_float :: "pyfloat \<Rightarrow> pyexc + int" where
  "py_int_of_float (Fin r) = Inr (if r \<ge> 0 then \<lfloor>r\<rfloor> else \<lceil>r\<rceil>)"
| "py_int_of_float PosInf = Inl OverflowError"
| "py_int_of_float NegInf = Inl OverflowError"
| "py_int_of_float NaN = Inl ValueError"

text \<open>Float multiplication \<^verbatim>\<open>a * b\<close>.\<close>

fun py_fmul :: "pyfloat \<Rightarrow> pyfloat \<Rightarrow> pyfloat" where
  "py_fmul (Fin a) (Fin b) = fin_or_inf (a * b)"
| "py_fmul NaN _ = NaN"
| "py_fmul _ NaN = NaN"
| "py_fmul (Fin a) PosInf = (if a = 0 then NaN else if a > 0 then PosInf else NegInf)"
| "py_fmul (Fin a) NegInf = (if a = 0 then NaN else if a > 0 then NegInf else PosInf)"
| "py_fmul PosInf (Fin b) = (if b = 0 then NaN else if b > 0 then PosInf else NegInf)"
| "py_fmul NegInf (Fin b) = (if b = 0 then NaN else if b > 0 then NegInf else PosInf)"
| "py_fmul PosInf PosInf = PosInf"
| "py_fmul PosInf NegInf = NegInf"
| "py_fmul NegInf PosInf = NegInf"
| "py_fmul NegInf NegInf = PosInf"

text \<open>\<^verbatim>\<open>a > 0\<close> on a float.\<close>

fun fgt0 :: "pyfloat \<Rightarrow> bool" where
  "fgt0 (Fin r) = (r > 0)"
| "fgt0 PosInf = True"
| "fgt0 NegInf = False"
| "fgt0 NaN = False"

section \<open>The single-family classifier\<close>

definition is_single_family :: "(pyfloat \<Rightarrow> string) \<Rightarrow> pydict \<Rightarrow> bool" where
  "is_single_family frepr attrs =
     (let candidates =
            [ py_str frepr (dict_get_default attrs ''LAND_USE'' (PStr '''')),
              py_str frepr (dict_get_default attrs ''LandUse'' (PStr '''')),
              py_str frepr (dict_get_default attrs ''PROPERTY_CLASS'' (PStr '''')),
              py_str frepr (dict_get_default attrs ''PropertyClass'' (PStr '''')),
              py_str frepr (dict_get_default attrs ''PROP_CLASS'' (PStr '''')),
              py_str frepr (dict_get_default attrs ''PropClass'' (PStr '''')),
              py_str frepr (dict_get_default attrs ''PROPERTY_TYPE'' (PStr '''')) ];
          txt = py_upper (py_join '' '' candidates)
      in py_in ''SINGLE'' txt \<or> py_in ''SF'' txt)"

section \<open>The field normalizer\<close>

definition norm_float :: "pyval \<Rightarrow> pyfloat option" where
  "norm_float val =
     (if val = PNone then None
      else (case py_float val of Inl e \<Rightarrow> None | Inr f \<Rightarrow> Some f))"

definition norm_int :: "pyval \<Rightarrow> int option" where
  "norm_int val =
     (if val = PNone then None
      else (case py_float val of
              Inl e \<Rightarrow> None
            | Inr f \<Rightarrow> (case py_int_of_float f of Inl e \<Rightarrow> None | Inr n \<Rightarrow> Some n)))"

record PropertyRecord =
  parcel_id :: "string option"
  address :: "string option"
  owner :: "string option"
  land_value :: "pyfloat option"
  improvement_value :: "pyfloat option"
  total_appraised_value :: "pyfloat option"
  year_built :: "int option"
  lot_size :: "pyfloat option"
  legal_description :: "string option"
  property_class :: "string option"
  land_use :: "string option"
  longitude :: "pyfloat option"
  latitude :: "pyfloat option"

text \<open>
  A raw feature: the \<^verbatim>\<open>attributes\<close> map when the key is there, and the
  \<^verbatim>\<open>geometry\<close> map when the key is there and not null.
\<close>

record feature =
  attributes :: "pydict option"
  geometry :: "pydict option"

text \<open>\<^verbatim>\<open>f.get("attributes", {})\<close>.\<close>

definition feature_attrs :: "feature \<Rightarrow> pydict" where
  "feature_attrs f = (case attributes f of None \<Rightarrow> [] | Some a \<Rightarrow> a)"

text \<open>\<^verbatim>\<open>f.get("geometry", {}) or {}\<close>.\<close>

definition feature_geom :: "feature \<Rightarrow> pydict" where
  "feature_geom f = (case geometry f of None \<Rightarrow> [] | Some g \<Rightarrow> g)"

text \<open>\<^verbatim>\<open>PropertyRecord()\<close>: every field defaults to \<^verbatim>\<open>None\<close>.\<close>

definition PropertyRecord_default :: PropertyRecord where
  "PropertyRecord_default =
     \<lparr> parcel_id = None, address = None, owner = None, land_value = None,
       improvement_value = None, total_appraised_value = None, year_built = None,
       lot_size = None, legal_description = None, property_class = None, land_use = None,
       longitude = None, latitude = None \<rparr>"

text \<open>\<^verbatim>\<open>str(v) if v is not None else None\<close>.\<close>

definition str_or_none :: "(pyfloat \<Rightarrow> string) \<Rightarrow> pyval \<Rightarrow> string option" where
  "str_or_none frepr v = (if v \<noteq> PNone then Some (py_str frepr v) else None)"

text \<open>\<^verbatim>\<open>isinstance(v, (int, float))\<close>; a \<^verbatim>\<open>bool\<close> is an \<^verbatim>\<open>int\<close>.\<close>

fun is_int_or_float :: "pyval \<Rightarrow> bool" where
  "is_int_or_float (PBool _) = True"
| "is_int_or_float (PInt _) = True"
| "is_int_or_float (PFloat _) = True"
| "is_int_or_float _ = False"

text \<open>\<^verbatim>\<open>float(v) if isinstance(v, (int, float)) else None\<close>, outside any \<^verbatim>\<open>try\<close>.\<close>

definition coord_or_none :: "pyval \<Rightarrow> pyexc + pyfloat option" where
  "coord_or_none v =
     (if is_int_or_float v
      then (case py_float v of Inl e \<Rightarrow> Inl e | Inr f \<Rightarrow> Inr (Some f))
      else Inr None)"

definition normalize :: "(pyfloat \<Rightarrow> string) \<Rightarrow> feature \<Rightarrow> pyexc + PropertyRecord" where
  "normalize frepr f =
     (let attrs = feature_attrs f;
          geom = feature_geom f;
          x = dict_get geom ''x'';
          y = dict_get geom ''y'';
          parcel = py_or (dict_get attrs ''PARCEL_ID'')
                    (py_or (dict_get attrs ''ParcelID'')
                    (py_or (dict_get attrs ''ACCOUNT'')
                    (py_or (dict_get attrs ''Account'')
                           (dict_get attrs ''OBJECTID''))));
          addr = py_or (dict_get attrs ''SITUS_ADDR'')
                  (py_or (dict_get attrs ''SitusAddress'')
                  (py_or (dict_get attrs ''SITUS'')
                         (dict_get attrs ''Address'')));
          own = py_or (dict_get attrs ''OWNER'')
                 (py_or (dict_get attrs ''OwnerName'')
                        (dict_get attrs ''OWNER_NAME''));
          land_val = norm_float
                 (py_or (dict_get attrs ''LAND_VALUE'')
                 (py_or (dict_get attrs ''LandValue'')
                        (dict_get attrs ''LANDVAL'')));
          impr_value = norm_float
                 (py_or (dict_get attrs ''IMPR_VALUE'')
                 (py_or (dict_get attrs ''ImprovementValue'')
                        (dict_get attrs ''IMPRVAL'')));
          total_val = norm_float
                 (py_or (dict_get attrs ''TOTAL_VALUE'')
                 (py_or (dict_get attrs ''TotalValue'')
                 (py_or (dict_get attrs ''MKT_VAL'')
                 (py_or (dict_get attrs ''APPR_VALUE'')
                        (dict_get attrs ''ApprValue'')))));
          year = norm_int
                 (py_or (dict_get attrs ''YEAR_BUILT'')
                        (dict_get attrs ''YearBuilt''));
          lot = norm_float
                 (py_or (dict_get attrs ''LOT_SIZE'')
                 (py_or (dict_get attrs ''LotSize'')
                 (py_or (dict_get attrs ''ACRES'')
                        (dict_get attrs ''Acres''))));
          legal = py_or (dict_get attrs ''LEGAL_DESC'')
                   (py_or (dict_get attrs ''LegalDesc'')
                          (dict_get attrs ''LEGAL_DESCRIPTION''));
          prop_class = py_or (dict_get attrs ''PROPERTY_CLASS'')
                        (py_or (dict_get attrs ''PropClass'')
                               (dict_get attrs ''PROP_CLASS''));
          use = py_or (dict_get attrs ''LAND_USE'') (dict_get attrs ''LandUse'')
      in case coord_or_none x of
           Inl e \<Rightarrow> Inl e
         | Inr lo \<Rightarrow>
             (case coord_or_none y of
                Inl e \<Rightarrow> Inl e
              | Inr la \<Rightarrow>
                  Inr \<lparr> parcel_id = str_or_none frepr parcel,
                        address = str_or_none frepr addr,
                        owner = str_or_none frepr own,
                        land_value = land_val,
                        improvement_value = impr_value,
                        total_appraised_value = total_val,
                        year_built = year,
                        lot_size = lot,
                        legal_description = str_or_none frepr legal,
                        property_class = str_or_none frepr prop_class,
                        land_use = str_or_none frepr use,
                        longitude = lo,
                        latitude = la \<rparr>))"

section \<open>Requests and the two upstream services\<close>

record SearchRequest =
  req_address :: string
  county :: string
  radius_miles :: pyfloat
  single_family_only :: bool

text \<open>
  The body of a request before validation: each field is there or not. Validation
  (pydantic) requires \<^verbatim>\<open>address\<close>, fills the defaults of the others and checks
  \<^verbatim>\<open>gt=0\<close> on a given radius; the error names the fields that failed.
\<close>

record raw_request =
  raw_address :: "string option"
  raw_county :: "string option"
  raw_radius_miles :: "pyfloat option"
  raw_single_family_only :: "bool option"

definition validate_SearchRequest :: "raw_request \<Rightarrow> pyexc + SearchRequest" where
  "validate_SearchRequest raw =
     (let errs = (if raw_address raw = None then [''address''] else []) @
                 (case raw_radius_miles raw of
                    None \<Rightarrow> []
                  | Some r \<Rightarrow> if fgt0 r then [] else [''radius_miles''])
      in if errs \<noteq> [] then Inl (ValidationError errs)
         else Inr \<lparr> req_address = (case raw_address raw of None \<Rightarrow> [] | Some a \<Rightarrow> a),
                    county = (case raw_county raw of
                                None \<Rightarrow> ''Denton County, TX'' | Some c \<Rightarrow> c),
                    radius_miles = (case raw_radius_miles raw of
                                      None \<Rightarrow> Fin 2.0 | Some r \<Rightarrow> r),
                    single_family_only = (case raw_single_family_only raw of
                                            None \<Rightarrow> True | Some b \<Rightarrow> b) \<rparr>)"

text \<open>
  An HTTP response: the status, the body as text, and the body as JSON when it parses
  (\<^verbatim>\<open>r.json()\<close> raises otherwise).
\<close>

record 'j http_response =
  status_code :: int
  resp_text :: string
  json :: "'j option"

text \<open>
  The JSON object the feature service answers with: the text of its \<^verbatim>\<open>error\<close>
  entry when it has one, and its \<^verbatim>\<open>features\<close> array when it has one.
\<close>

record arcgis_data =
  error_entry :: "string option"
  features :: "feature list option"

record query_params =
  f_format :: string
  where_clause :: string
  geometry_point :: string
  geometryType :: string
  inSR :: int
  spatialRel :: string
  distance :: pyfloat
  units :: string
  outFields :: string
  outSR :: int
  returnGeometry :: bool

text \<open>
  The two services are functions from the request to what \<^verbatim>\<open>requests\<close> gives
  back: an exception of its own, or a response. The address lookup is a function of
  the query text \<^verbatim>\<open>q\<close>, its other parameters being constants.
\<close>

record env =
  nominatim :: "string \<Rightarrow> pyexc + (pydict list) http_response"
  arcgis :: "query_params \<Rightarrow> pyexc + arcgis_data http_response"

text \<open>The requests sent so far, in order.\<close>

datatype call = NominatimGet string | ArcGISQuery query_params

record coords =
  lat :: pyfloat
  lon :: pyfloat

definition geocode_address ::
  "env \<Rightarrow> string \<Rightarrow> call list \<Rightarrow> (pyexc + coords) \<times> call list" where
  "geocode_address ev addr calls =
     (let calls' = calls @ [NominatimGet addr] in
      case nominatim ev addr of
        Inl e \<Rightarrow> (Inl e, calls')
      | Inr r \<Rightarrow>
          if status_code r \<noteq> 200
          then (Inl (HTTPException 502 (''Geocoding failed: '' @ take 200 (resp_text r))), calls')
          else (case json r of
                  None \<Rightarrow> (Inl JSONDecodeError, calls')
                | Some results \<Rightarrow>
                    (case results of
                       [] \<Rightarrow> (Inl (HTTPException 404 ''Address not found''), calls')
                     | item # _ \<Rightarrow>
                         (case map_of item ''lat'' of
                            None \<Rightarrow> (Inl (KeyError ''lat''), calls')
                          | Some la \<Rightarrow>
                              (case py_float la of
                                 Inl e \<Rightarrow> (Inl e, calls')
                               | Inr laf \<Rightarrow>
                                   (case map_of item ''lon'' of
                                      None \<Rightarrow> (Inl (KeyError ''lon''), calls')
                                    | Some lo \<Rightarrow>
                                        (case py_float lo of
                                           Inl e \<Rightarrow> (Inl e, calls')
                                         | Inr lof \<Rightarrow>
                                             (Inr \<lparr> lat = laf, lon = lof \<rparr>, calls'))))))))"

definition miles_to_meters :: "pyfloat \<Rightarrow> pyfloat" where
  "miles_to_meters miles = py_fmul miles (Fin 1609.34)"

definition nearby_params :: "(pyfloat \<Rightarrow> string) \<Rightarrow> pyfloat \<Rightarrow> pyfloat \<Rightarrow> pyfloat \<Rightarrow> query_params" where
  "nearby_params frepr lo la radius =
     \<lparr> f_format = ''json'',
       where_clause = ''1=1'',
       geometry_point = frepr lo @ '','' @ frepr la,
       geometryType = ''esriGeometryPoint'',
       inSR = 4326,
       spatialRel = ''esriSpatialRelIntersects'',
       distance = miles_to_meters radius,
       units = ''esriSRUnit_Meter'',
       outFields = ''*'',
       outSR = 4326,
       returnGeometry = True \<rparr>"

definition query_nearby ::
  "(pyfloat \<Rightarrow> string) \<Rightarrow> env \<Rightarrow> pyfloat \<Rightarrow> pyfloat \<Rightarrow> pyfloat \<Rightarrow> call list
     \<Rightarrow> (pyexc + feature list) \<times> call list" where
  "query_nearby frepr ev lo la radius calls =
     (let params = nearby_params frepr lo la radius;
          calls' = calls @ [ArcGISQuery params]
      in case arcgis ev params of
           Inl e \<Rightarrow> (Inl e, calls')
         | Inr r \<Rightarrow>
             if status_code r \<noteq> 200
             then (Inl (HTTPException 502 (''Denton CAD query failed: '' @ take 200 (resp_text r))),
                   calls')
             else (case json r of
                     None \<Rightarrow> (Inl JSONDecodeError, calls')
                   | Some data \<Rightarrow>
                       (case error_entry data of
                          Some err \<Rightarrow> (Inl (HTTPException 502 (''Denton CAD error: '' @ err)), calls')
                        | None \<Rightarrow>
                            (Inr (case features data of None \<Rightarrow> [] | Some fs \<Rightarrow> fs), calls'))))"

section \<open>Search and export\<close>

text \<open>\<^verbatim>\<open>[client.normalize(f) for f in features]\<close>: the first exception ends the loop.\<close>

fun normalize_all :: "(pyfloat \<Rightarrow> string) \<Rightarrow> feature list \<Rightarrow> pyexc + PropertyRecord list" where
  "normalize_all frepr [] = Inr []"
| "normalize_all frepr (f # fs) =
     (case normalize frepr f of
        Inl e \<Rightarrow> Inl e
      | Inr r \<Rightarrow> (case normalize_all frepr fs of Inl e \<Rightarrow> Inl e | Inr rs \<Rightarrow> Inr (r # rs)))"

definition search_properties ::
  "(pyfloat \<Rightarrow> string) \<Rightarrow> env \<Rightarrow> SearchRequest \<Rightarrow> call list
     \<Rightarrow> (pyexc + PropertyRecord list) \<times> call list" where
  "search_properties frepr ev req calls =
     (case geocode_address ev (req_address req @ '', '' @ county req) calls of
        (Inl e, calls1) \<Rightarrow> (Inl e, calls1)
      | (Inr cs, calls1) \<Rightarrow>
          (case query_nearby frepr ev (lon cs) (lat cs) (radius_miles req) calls1 of
             (Inl e, calls2) \<Rightarrow> (Inl e, calls2)
           | (Inr fs, calls2) \<Rightarrow>
               (case normalize_all frepr fs of
                  Inl e \<Rightarrow> (Inl e, calls2)
                | Inr records \<Rightarrow>
                    (Inr (if single_family_only req
                          then map fst (filter (\<lambda>(r, f). is_single_family frepr (feature_attrs f))
                                          (zip records fs))
                          else records),
                     calls2))))"

text \<open>The workbook: the sheet's name, the columns in order, one row for each record.\<close>

datatype xlsx = Xlsx string "string list" "PropertyRecord list"

definition to_excel :: "PropertyRecord list \<Rightarrow> xlsx" where
  "to_excel records =
     Xlsx ''Properties''
       [ ''parcel_id'', ''address'', ''owner'', ''total_appraised_value'', ''land_value'',
         ''improvement_value'', ''year_built'', ''lot_size'', ''legal_description'',
         ''property_class'', ''land_use'', ''latitude'', ''longitude'' ]
       records"

definition export_properties ::
  "(pyfloat \<Rightarrow> string) \<Rightarrow> env \<Rightarrow> SearchRequest \<Rightarrow> call list \<Rightarrow> (pyexc + xlsx) \<times> call list" where
  "export_properties frepr ev req calls =
     (case search_properties frepr ev req calls of
        (Inl e, calls1) \<Rightarrow> (Inl e, calls1)
      | (Inr results, calls1) \<Rightarrow>
          if results = []
          then (Inl (HTTPException 404 ''No properties found for the specified criteria''), calls1)
          else (Inr (to_excel results), calls1))"

section \<open>Definitions used to state the properties\<close>

text \<open>
  The text Python prints for a float that is an infinity, not a number, or a whole
  number below \<open>10^16\<close> in magnitude; the empty text elsewhere. It stands for the
  parameter \<open>frepr\<close> where a property is evaluated at a concrete feature.
\<close>

definition repr_whole :: "pyfloat \<Rightarrow> string" where
  "repr_whole f =
     (case f of
        Fin r \<Rightarrow> if r = of_int \<lfloor>r\<rfloor> \<and> \<bar>r\<bar> < 10 ^ 16 then str_int \<lfloor>r\<rfloor> @ ''.0'' else []
      | PosInf \<Rightarrow> ''inf''
      | NegInf \<Rightarrow> ''-inf''
      | NaN \<Rightarrow> ''nan'')"

text \<open>
  The classifier as the specification words it: the candidate field names, and the
  search text built from them (the empty text for a missing field).
\<close>

definition sf_fields :: "string list" where
  "sf_fields = [''LAND_USE'', ''LandUse'', ''PROPERTY_CLASS'', ''PropertyClass'',
                ''PROP_CLASS'', ''PropClass'', ''PROPERTY_TYPE'']"

definition sf_text :: "(pyfloat \<Rightarrow> string) \<Rightarrow> pydict \<Rightarrow> string" where
  "sf_text frepr attrs =
     py_upper (py_join '' ''
       (map (\<lambda>k. case map_of attrs k of None \<Rightarrow> [] | Some v \<Rightarrow> py_str frepr v) sf_fields))"

text \<open>
  The normalizer as the specification words it: a table from each canonical field to
  its ordered upstream names, one lookup over the table, and the coercion of the value
  found to the field's type.
\<close>

datatype canonical_field =
    F_parcel_id | F_address | F_owner | F_land_value | F_improvement_value
  | F_total_appraised_value | F_year_built | F_lot_size | F_legal_description
  | F_property_class | F_land_use

fun aliases :: "canonical_field \<Rightarrow> string list" where
  "aliases F_parcel_id = [''PARCEL_ID'', ''ParcelID'', ''ACCOUNT'', ''Account'', ''OBJECTID'']"
| "aliases F_address = [''SITUS_ADDR'', ''SitusAddress'', ''SITUS'', ''Address'']"
| "aliases F_owner = [''OWNER'', ''OwnerName'', ''OWNER_NAME'']"
| "aliases F_land_value = [''LAND_VALUE'', ''LandValue'', ''LANDVAL'']"
| "aliases F_improvement_value = [''IMPR_VALUE'', ''ImprovementValue'', ''IMPRVAL'']"
| "aliases F_total_appraised_value =
     [''TOTAL_VALUE'', ''TotalValue'', ''MKT_VAL'', ''APPR_VALUE'', ''ApprValue'']"
| "aliases F_year_built = [''YEAR_BUILT'', ''YearBuilt'']"
| "aliases F_lot_size = [''LOT_SIZE'', ''LotSize'', ''ACRES'', ''Acres'']"
| "aliases F_legal_description = [''LEGAL_DESC'', ''LegalDesc'', ''LEGAL_DESCRIPTION'']"
| "aliases F_property_class = [''PROPERTY_CLASS'', ''PropClass'', ''PROP_CLASS'']"
| "aliases F_land_use = [''LAND_USE'', ''LandUse'']"

text \<open>The value of the first alias that is present and not null.\<close>

definition first_non_null :: "pyval list \<Rightarrow> pyval" where
  "first_non_null vs = (case filter (\<lambda>v. v \<noteq> PNone) vs of [] \<Rightarrow> PNone | v # _ \<Rightarrow> v)"

text \<open>
  The value of the first alias whose value is truthy; when there is none, the value of
  the last alias (\<^verbatim>\<open>None\<close> when it is missing).
\<close>

definition first_truthy :: "pyval list \<Rightarrow> pyval" where
  "first_truthy vs =
     (case filter truthy vs of
        v # _ \<Rightarrow> v
      | [] \<Rightarrow> if vs = [] then PNone else last vs)"

text \<open>A field of the record as a Python value, \<^verbatim>\<open>None\<close> when it is absent.\<close>

fun record_field :: "PropertyRecord \<Rightarrow> canonical_field \<Rightarrow> pyval" where
  "record_field r F_parcel_id = (case parcel_id r of None \<Rightarrow> PNone | Some s \<Rightarrow> PStr s)"
| "record_field r F_address = (case address r of None \<Rightarrow> PNone | Some s \<Rightarrow> PStr s)"
| "record_field r F_owner = (case owner r of None \<Rightarrow> PNone | Some s \<Rightarrow> PStr s)"
| "record_field r F_land_value = (case land_value r of None \<Rightarrow> PNone | Some x \<Rightarrow> PFloat x)"
| "record_field r F_improvement_value =
     (case improvement_value r of None \<Rightarrow> PNone | Some x \<Rightarrow> PFloat x)"
| "record_field r F_total_appraised_value =
     (case total_appraised_value r of None \<Rightarrow> PNone | Some x \<Rightarrow> PFloat x)"
| "record_field r F_year_built = (case year_built r of None \<Rightarrow> PNone | Some n \<Rightarrow> PInt n)"
| "record_field r F_lot_size = (case lot_size r of None \<Rightarrow> PNone | Some x \<Rightarrow> PFloat x)"
| "record_field r F_legal_description =
     (case legal_description r of None \<Rightarrow> PNone | Some s \<Rightarrow> PStr s)"
| "record_field r F_property_class =
     (case property_class r of None \<Rightarrow> PNone | Some s \<Rightarrow> PStr s)"
| "record_field r F_land_use = (case land_use r of None \<Rightarrow> PNone | Some s \<Rightarrow> PStr s)"

definition float_fields :: "canonical_field set" where
  "float_fields = {F_land_value, F_improvement_value, F_total_appraised_value, F_lot_size}"

definition coerce :: "(pyfloat \<Rightarrow> string) \<Rightarrow> canonical_field \<Rightarrow> pyval \<Rightarrow> pyval" where
  "coerce frepr fld v =
     (if fld = F_year_built then (case norm_int v of None \<Rightarrow> PNone | Some n \<Rightarrow> PInt n)
      else if fld \<in> float_fields then (case norm_float v of None \<Rightarrow> PNone | Some x \<Rightarrow> PFloat x)
      else (case str_or_none frepr v of None \<Rightarrow> PNone | Some s \<Rightarrow> PStr s))"

text \<open>\<^verbatim>\<open>v1 or v2 or ... or vn\<close>.\<close>

fun or_chain :: "pyval list \<Rightarrow> pyval" where
  "or_chain [] = PNone"
| "or_chain [v] = v"
| "or_chain (v # w # ws) = py_or v (or_chain (w # ws))"

definition numeric_fields :: "canonical_field set" where
  "numeric_fields = insert F_year_built float_fields"

text \<open>
  The value cannot be converted to the field's numeric type: \<^verbatim>\<open>float(v)\<close> raises, or,
  for the year, \<^verbatim>\<open>int(float(v))\<close> does.
\<close>

definition conversion_fails :: "canonical_field \<Rightarrow> pyval \<Rightarrow> bool" where
  "conversion_fails fld v =
     (case py_float v of
        Inl e \<Rightarrow> True
      | Inr x \<Rightarrow> fld = F_year_built \<and> (case py_int_of_float x of Inl e \<Rightarrow> True | Inr n \<Rightarrow> False))"

text \<open>The values the alias lookup takes for missing: zero, the empty string, false.\<close>

definition falsy_values :: "pyval set" where
  "falsy_values = {PInt 0, PFloat (Fin 0), PStr [], PBool False}"

text \<open>
  Concrete inputs at which the properties are evaluated: a request, an address lookup
  that answers with one candidate and one that answers with none, and a feature service
  that answers with the given features.
\<close>

definition demo_request :: SearchRequest where
  "demo_request =
     \<lparr> req_address = ''123 Main St, Denton, TX'', county = ''Denton County, TX'',
       radius_miles = Fin 2.0, single_family_only = True \<rparr>"

definition demo_candidates :: "string \<Rightarrow> pyexc + (pydict list) http_response" where
  "demo_candidates q =
     Inr \<lparr> status_code = 200, resp_text = ''<one candidate>'',
           json = Some [[(''lat'', PStr ''33''), (''lon'', PStr ''-97'')]] \<rparr>"

definition demo_no_candidates :: "string \<Rightarrow> pyexc + (pydict list) http_response" where
  "demo_no_candidates q = Inr \<lparr> status_code = 200, resp_text = ''[]'', json = Some [] \<rparr>"

definition demo_features_response ::
  "feature list \<Rightarrow> query_params \<Rightarrow> pyexc + arcgis_data http_response" where
  "demo_features_response fs p =
     Inr \<lparr> status_code = 200, resp_text = ''<features>'',
           json = Some \<lparr> error_entry = None, features = Some fs \<rparr> \<rparr>"

definition demo_env :: "feature list \<Rightarrow> env" where
  "demo_env fs = \<lparr> nominatim = demo_candidates, arcgis = demo_features_response fs \<rparr>"

definition demo_env_no_match :: env where
  "demo_env_no_match = \<lparr> nominatim = demo_no_candidates, arcgis = demo_features_response [] \<rparr>"

definition demo_house :: feature where
  "demo_house =
     \<lparr> attributes = Some [(''PARCEL_ID'', PStr ''R1''), (''LAND_USE'', PStr ''Single Family'')],
       geometry = None \<rparr>"

definition demo_shop :: feature where
  "demo_shop =
     \<lparr> attributes = Some [(''PARCEL_ID'', PStr ''R2''), (''LAND_USE'', PStr ''Commercial'')],
       geometry = None \<rparr>"

definition demo_cottage :: feature where
  "demo_cottage =
     \<lparr> attributes = Some [(''PARCEL_ID'', PStr ''R3''), (''PROP_CLASS'', PStr ''A1 SF'')],
       geometry = None \<rparr>"

definition demo_features :: "feature list" where
  "demo_features = [demo_house, demo_shop, demo_cottage]"

section \<open>Properties of the classifier\<close>

lemma py_str_get_default:
  "py_str frepr (dict_get_default attrs k (PStr [])) =
     (case map_of attrs k of None \<Rightarrow> [] | Some v \<Rightarrow> py_str frepr v)"
  by (simp add: dict_get_default_def split: option.split)

lemma is_single_family_text:
  "is_single_family frepr attrs \<longleftrightarrow>
     sublist ''SINGLE'' (sf_text frepr attrs) \<or> sublist ''SF'' (sf_text frepr attrs)"
  by (simp only: is_single_family_def sf_text_def sf_fields_def py_in_def Let_def
        py_str_get_default list.map)

lemma py_upper_append: "py_upper (a @ b) = py_upper a @ py_upper b"
  by (simp add: py_upper_def)

lemmas char_eval = upper_char_def char_of_def bit_Suc_0_iff

lemma sf_text_land_use:
  "map_of attrs ''LAND_USE'' = Some (PStr s) \<Longrightarrow>
     \<exists>rest. sf_text frepr attrs = py_upper s @ rest"
  by (simp add: sf_text_def sf_fields_def py_upper_append)

lemma single_family_residential:
  assumes "map_of attrs ''LAND_USE'' = Some (PStr ''single family residential'')"
  shows "is_single_family frepr attrs"
proof -
  obtain rest where "sf_text frepr attrs = py_upper ''single family residential'' @ rest"
    using sf_text_land_use [OF assms] by blast
  then have "sf_text frepr attrs = [] @ ''SINGLE'' @ ('' FAMILY RESIDENTIAL'' @ rest)"
    by (simp add: py_upper_def char_eval)
  then have "sublist ''SINGLE'' (sf_text frepr attrs)"
    unfolding sublist_def by blast
  then show ?thesis by (simp add: is_single_family_text)
qed

lemma commercial_only:
  assumes "map_of attrs ''LAND_USE'' = Some (PStr ''commercial'')"
    and "\<forall>k \<in> set (tl sf_fields). map_of attrs k = None"
  shows "\<not> is_single_family frepr attrs"
proof -
  have "sf_text frepr attrs = ''COMMERCIAL      ''"
    using assms by (simp add: sf_text_def sf_fields_def py_upper_def char_eval)
  then show ?thesis
    by (simp add: is_single_family_text sublist_Cons_right)
qed

text \<open>
  Claim C4. For every attribute map, the classifier returns true if and only if the
  uppercase, space-joined concatenation of the string forms of the seven candidate
  fields (the empty string for a missing one) contains \<^verbatim>\<open>SINGLE\<close> or \<^verbatim>\<open>SF\<close>.
  A feature whose \<^verbatim>\<open>LAND_USE\<close> is "single family residential" classifies true; one
  whose \<^verbatim>\<open>LAND_USE\<close> is "commercial", with no other candidate field, classifies false.
\<close>

theorem C4_is_single_family:
  "(is_single_family frepr attrs \<longleftrightarrow>
      sublist ''SINGLE'' (sf_text frepr attrs) \<or> sublist ''SF'' (sf_text frepr attrs))
   \<and> (map_of attrs ''LAND_USE'' = Some (PStr ''single family residential'')
        \<longrightarrow> is_single_family frepr attrs)
   \<and> (map_of attrs ''LAND_USE'' = Some (PStr ''commercial'')
        \<and> (\<forall>k \<in> set (tl sf_fields). map_of attrs k = None)
        \<longrightarrow> \<not> is_single_family frepr attrs)"
  using is_single_family_text single_family_residential commercial_only by blast

theorem C4_is_single_family_witness:
  "is_single_family repr_whole [(''LAND_USE'', PStr ''single family residential'')]
   \<and> \<not> is_single_family repr_whole [(''LAND_USE'', PStr ''commercial'')]"
proof -
  have "map_of [(''LAND_USE'', PStr ''single family residential'')] ''LAND_USE''
          = Some (PStr ''single family residential'')"
    by simp
  moreover have "map_of [(''LAND_USE'', PStr ''commercial'')] ''LAND_USE'' = Some (PStr ''commercial'')
      \<and> (\<forall>k \<in> set (tl sf_fields). map_of [(''LAND_USE'', PStr ''commercial'')] k = None)"
    by (simp add: sf_fields_def)
  ultimately show ?thesis
    using C4_is_single_family [of repr_whole "[(''LAND_USE'', PStr ''single family residential'')]"]
          C4_is_single_family [of repr_whole "[(''LAND_USE'', PStr ''commercial'')]"]
    by blast
qed

section \<open>Properties of the normalizer\<close>

lemma or_chain_first_truthy: "or_chain vs = first_truthy vs"
  by (induction vs rule: or_chain.induct) (auto simp: first_truthy_def py_or_def split: list.splits)

lemma normalize_Inr:
  assumes "normalize frepr f = Inr r"
  shows "r = \<lparr> parcel_id = str_or_none frepr (or_chain (map (dict_get (feature_attrs f)) (aliases F_parcel_id))),
               address = str_or_none frepr (or_chain (map (dict_get (feature_attrs f)) (aliases F_address))),
               owner = str_or_none frepr (or_chain (map (dict_get (feature_attrs f)) (aliases F_owner))),
               land_value = norm_float (or_chain (map (dict_get (feature_attrs f)) (aliases F_land_value))),
               improvement_value = norm_float (or_chain (map (dict_get (feature_attrs f)) (aliases F_improvement_value))),
               total_appraised_value = norm_float (or_chain (map (dict_get (feature_attrs f)) (aliases F_total_appraised_value))),
               year_built = norm_int (or_chain (map (dict_get (feature_attrs f)) (aliases F_year_built))),
               lot_size = norm_float (or_chain (map (dict_get (feature_attrs f)) (aliases F_lot_size))),
               legal_description = str_or_none frepr (or_chain (map (dict_get (feature_attrs f)) (aliases F_legal_description))),
               property_class = str_or_none frepr (or_chain (map (dict_get (feature_attrs f)) (aliases F_property_class))),
               land_use = str_or_none frepr (or_chain (map (dict_get (feature_attrs f)) (aliases F_land_use))),
               longitude = longitude r,
               latitude = latitude r \<rparr>"
  using assms
  by (auto simp: normalize_def Let_def split: sum.splits)

lemma normalize_field:
  assumes "normalize frepr f = Inr r"
  shows "record_field r fld =
           coerce frepr fld (first_truthy (map (dict_get (feature_attrs f)) (aliases fld)))"
  by (subst normalize_Inr [OF assms], cases fld)
     (simp_all add: coerce_def float_fields_def or_chain_first_truthy del: aliases.simps)

lemma or_chain_Cons: "vs \<noteq> [] \<Longrightarrow> or_chain (v # vs) = py_or v (or_chain vs)"
  by (cases vs) simp_all

lemma or_chain_remove1:
  "k \<in> set (butlast ks) \<Longrightarrow> \<not> truthy (g k) \<Longrightarrow>
     or_chain (map g ks) = or_chain (map g (remove1 k ks))"
proof (induction ks)
  case Nil
  then show ?case by simp
next
  case (Cons a ks)
  then have ne: "ks \<noteq> []" by auto
  show ?case
  proof (cases "k = a")
    case True
    with Cons.prems ne show ?thesis
      by (simp add: or_chain_Cons py_or_def)
  next
    case False
    with Cons.prems ne have mem: "k \<in> set (butlast ks)" by simp
    then have "remove1 k ks \<noteq> []"
      by (cases ks) (auto split: if_splits)
    with Cons.IH [OF mem Cons.prems(2)] False ne show ?thesis
      by (simp add: or_chain_Cons)
  qed
qed

lemma falsy_not_truthy: "v \<in> falsy_values \<Longrightarrow> \<not> truthy v"
  by (auto simp: falsy_values_def)

lemma normalize_Inl:
  "normalize frepr f = Inl e \<longleftrightarrow>
     (coord_or_none (dict_get (feature_geom f) ''x'') = Inl e
      \<or> (\<exists>lo. coord_or_none (dict_get (feature_geom f) ''x'') = Inr lo)
          \<and> coord_or_none (dict_get (feature_geom f) ''y'') = Inl e)"
  by (auto simp: normalize_def Let_def split: sum.splits)

lemma coord_or_none_Inl:
  "coord_or_none v = Inl e \<longleftrightarrow> e = OverflowError \<and> (\<exists>n. v = PInt n \<and> \<bar>n\<bar> \<ge> DBL_OVERFLOW)"
  by (cases v) (auto simp: coord_or_none_def split: sum.splits)

lemma normalize_raises:
  assumes "normalize frepr f = Inl e"
  shows "e = OverflowError \<and>
         (\<exists>n. \<bar>n\<bar> \<ge> DBL_OVERFLOW \<and>
              (dict_get (feature_geom f) ''x'' = PInt n \<or> dict_get (feature_geom f) ''y'' = PInt n))"
  using assms unfolding normalize_Inl coord_or_none_Inl by blast

lemma normalize_returns:
  assumes "\<forall>n. dict_get (feature_geom f) ''x'' = PInt n \<or> dict_get (feature_geom f) ''y'' = PInt n
             \<longrightarrow> \<bar>n\<bar> < DBL_OVERFLOW"
  shows "\<exists>r. normalize frepr f = Inr r"
proof (cases "normalize frepr f")
  case (Inl e)
  from normalize_raises [OF this] assms show ?thesis by force
next
  case (Inr r)
  then show ?thesis by blast
qed

lemma normalize_attrs_irrelevant:
  "normalize frepr f = Inl e \<Longrightarrow> normalize frepr (f\<lparr>attributes := a\<rparr>) = Inl e"
  by (simp add: normalize_Inl feature_geom_def)

lemma coerce_fails:
  "fld \<in> numeric_fields \<Longrightarrow> conversion_fails fld v \<Longrightarrow> coerce frepr fld v = PNone"
  by (auto simp: numeric_fields_def float_fields_def conversion_fails_def coerce_def
        norm_float_def norm_int_def split: sum.splits)

lemma float_of_str_NA: "float_of_str ''N/A'' = Inl ValueError"
  by (simp add: float_of_str_def py_strip_def is_space_def is_digit_def parse_float_body_def
        parse_decimal_def py_upper_def upper_char_def char_of_def bit_Suc_0_iff)

lemma first_truthy_hd:
  "truthy v \<Longrightarrow> first_truthy (v # vs) = v"
  by (simp add: first_truthy_def)

text \<open>
  Claim C1, as amended. For every raw feature and every canonical field, the normalizer
  selects the value of the first alias in the fixed priority list whose value is truthy
  (present, not null, and not zero, the empty string or false), or the value of the last
  alias when none is; the field is that value coerced. In particular, for every feature
  whose \<^verbatim>\<open>PARCEL_ID\<close> holds a truthy value, the normalized \<^verbatim>\<open>parcel_id\<close> is the string
  form of that value, whatever \<^verbatim>\<open>ParcelID\<close> holds.
\<close>

theorem C1_first_truthy_wins:
  assumes "normalize frepr f = Inr r"
  shows "record_field r fld =
           coerce frepr fld (first_truthy (map (dict_get (feature_attrs f)) (aliases fld)))
         \<and> (truthy (dict_get (feature_attrs f) ''PARCEL_ID'') \<longrightarrow>
              parcel_id r = Some (py_str frepr (dict_get (feature_attrs f) ''PARCEL_ID'')))"
proof
  show "record_field r fld =
          coerce frepr fld (first_truthy (map (dict_get (feature_attrs f)) (aliases fld)))"
    by (rule normalize_field [OF assms])
  show "truthy (dict_get (feature_attrs f) ''PARCEL_ID'') \<longrightarrow>
          parcel_id r = Some (py_str frepr (dict_get (feature_attrs f) ''PARCEL_ID''))"
  proof
    assume t: "truthy (dict_get (feature_attrs f) ''PARCEL_ID'')"
    then have "dict_get (feature_attrs f) ''PARCEL_ID'' \<noteq> PNone" by auto
    with t normalize_field [OF assms, of F_parcel_id] show
      "parcel_id r = Some (py_str frepr (dict_get (feature_attrs f) ''PARCEL_ID''))"
      by (simp add: first_truthy_hd coerce_def float_fields_def str_or_none_def
            split: option.splits)
  qed
qed

theorem C1_first_truthy_wins_witness:
  "normalize repr_whole
     \<lparr> attributes = Some [(''PARCEL_ID'', PStr ''A1''), (''ParcelID'', PStr ''B2'')],
       geometry = None \<rparr>
     = Inr (PropertyRecord_default \<lparr> parcel_id := Some ''A1'' \<rparr>)
   \<and> record_field (PropertyRecord_default \<lparr> parcel_id := Some ''A1'' \<rparr>) F_parcel_id = PStr ''A1''
   \<and> parcel_id (PropertyRecord_default \<lparr> parcel_id := Some ''A1'' \<rparr>) = Some ''A1''"
proof -
  have n: "normalize repr_whole
     \<lparr> attributes = Some [(''PARCEL_ID'', PStr ''A1''), (''ParcelID'', PStr ''B2'')],
       geometry = None \<rparr>
     = Inr (PropertyRecord_default \<lparr> parcel_id := Some ''A1'' \<rparr>)"
    by (simp add: normalize_def feature_attrs_def feature_geom_def dict_get_def py_or_def
          str_or_none_def norm_float_def norm_int_def coord_or_none_def
          PropertyRecord_default_def)
  from C1_first_truthy_wins [OF n, of F_parcel_id] n show ?thesis
    by (simp add: PropertyRecord_default_def)
qed

text \<open>
  Claim C1, as stated, fails: with \<^verbatim>\<open>PARCEL_ID\<close> set to the integer 0 and
  \<^verbatim>\<open>ParcelID\<close> to "R123", the first present, non-null alias value is 0, whose string
  form is "0", and the normalized \<^verbatim>\<open>parcel_id\<close> is "R123".
\<close>

theorem C1_counterexample:
  "normalize repr_whole
     \<lparr> attributes = Some [(''PARCEL_ID'', PInt 0), (''ParcelID'', PStr ''R123'')],
       geometry = None \<rparr>
     = Inr (PropertyRecord_default \<lparr> parcel_id := Some ''R123'' \<rparr>)
   \<and> first_non_null (map (dict_get [(''PARCEL_ID'', PInt 0), (''ParcelID'', PStr ''R123'')])
        (aliases F_parcel_id)) = PInt 0
   \<and> py_str repr_whole (PInt 0) = ''0''"
  by (simp add: normalize_def feature_attrs_def feature_geom_def dict_get_def py_or_def
        str_or_none_def norm_float_def norm_int_def coord_or_none_def
        PropertyRecord_default_def first_non_null_def str_int_def digit_char_def
        char_of_def bit_Suc_0_iff)

text \<open>
  Claim C10. The alias lookup treats a falsy value as missing: for every feature and
  field, when an alias before the last one holds 0, 0.0, the empty string or false,
  the lookup falls through, and the field is what the list without that alias gives.
  In particular, with \<^verbatim>\<open>LAND_VALUE\<close> holding the integer 0 and no other land-value
  alias, \<^verbatim>\<open>land_value\<close> is absent, not 0.0.
\<close>

theorem C10_falsy_falls_through:
  assumes "normalize frepr f = Inr r"
  shows "(k \<in> set (butlast (aliases fld)) \<and> dict_get (feature_attrs f) k \<in> falsy_values \<longrightarrow>
            record_field r fld =
              coerce frepr fld
                (first_truthy (map (dict_get (feature_attrs f)) (remove1 k (aliases fld)))))
         \<and> (map_of (feature_attrs f) ''LAND_VALUE'' = Some (PInt 0)
              \<and> map_of (feature_attrs f) ''LandValue'' = None
              \<and> map_of (feature_attrs f) ''LANDVAL'' = None \<longrightarrow>
            land_value r = None)"
proof (intro conjI impI)
  assume "k \<in> set (butlast (aliases fld)) \<and> dict_get (feature_attrs f) k \<in> falsy_values"
  then have "or_chain (map (dict_get (feature_attrs f)) (aliases fld)) =
             or_chain (map (dict_get (feature_attrs f)) (remove1 k (aliases fld)))"
    by (intro or_chain_remove1) (auto dest: falsy_not_truthy)
  with normalize_field [OF assms, of fld]
  show "record_field r fld =
          coerce frepr fld
            (first_truthy (map (dict_get (feature_attrs f)) (remove1 k (aliases fld))))"
    by (simp add: or_chain_first_truthy)
next
  assume a: "map_of (feature_attrs f) ''LAND_VALUE'' = Some (PInt 0)
              \<and> map_of (feature_attrs f) ''LandValue'' = None
              \<and> map_of (feature_attrs f) ''LANDVAL'' = None"
  then have "first_truthy (map (dict_get (feature_attrs f)) (aliases F_land_value)) = PNone"
    by (simp add: first_truthy_def dict_get_def)
  with normalize_field [OF assms, of F_land_value] show "land_value r = None"
    by (simp add: coerce_def float_fields_def norm_float_def split: option.splits)
qed

theorem C10_falsy_falls_through_witness:
  "normalize repr_whole \<lparr> attributes = Some [(''LAND_VALUE'', PInt 0)], geometry = None \<rparr>
     = Inr PropertyRecord_default
   \<and> land_value PropertyRecord_default = None
   \<and> record_field PropertyRecord_default F_land_value =
       coerce repr_whole F_land_value
         (first_truthy (map (dict_get [(''LAND_VALUE'', PInt 0)]) [''LandValue'', ''LANDVAL'']))"
proof -
  have n: "normalize repr_whole \<lparr> attributes = Some [(''LAND_VALUE'', PInt 0)], geometry = None \<rparr>
     = Inr PropertyRecord_default"
    by (simp add: normalize_def feature_attrs_def feature_geom_def dict_get_def py_or_def
          str_or_none_def norm_float_def norm_int_def coord_or_none_def
          PropertyRecord_default_def)
  have h: "''LAND_VALUE'' \<in> set (butlast (aliases F_land_value))
        \<and> dict_get (feature_attrs \<lparr> attributes = Some [(''LAND_VALUE'', PInt 0)], geometry = None \<rparr>)
            ''LAND_VALUE'' \<in> falsy_values"
    by (simp add: feature_attrs_def dict_get_def falsy_values_def)
  have m: "map_of (feature_attrs \<lparr> attributes = Some [(''LAND_VALUE'', PInt 0)], geometry = None \<rparr>)
             ''LAND_VALUE'' = Some (PInt 0)
        \<and> map_of (feature_attrs \<lparr> attributes = Some [(''LAND_VALUE'', PInt 0)], geometry = None \<rparr>)
             ''LandValue'' = None
        \<and> map_of (feature_attrs \<lparr> attributes = Some [(''LAND_VALUE'', PInt 0)], geometry = None \<rparr>)
             ''LANDVAL'' = None"
    by (simp add: feature_attrs_def)
  from C10_falsy_falls_through [OF n, of "''LAND_VALUE''" F_land_value] h m
  have "record_field PropertyRecord_default F_land_value =
          coerce repr_whole F_land_value
            (first_truthy (map (dict_get (feature_attrs
               \<lparr> attributes = Some [(''LAND_VALUE'', PInt 0)], geometry = None \<rparr>))
               (remove1 ''LAND_VALUE'' (aliases F_land_value))))
        \<and> land_value PropertyRecord_default = None"
    by blast
  then show ?thesis
    using n by (simp add: feature_attrs_def del: record_field.simps)
qed

text \<open>
  Claim C2. For every raw feature and numeric field (land value, improvement value,
  total value, year built, lot size), when the value the lookup selects cannot be
  converted to the field's numeric type, the field of the record is absent, never zero,
  and the conversion raises nothing: should normalization raise, it raises the same
  for the feature without its attributes. In particular \<^verbatim>\<open>LAND_VALUE: "N/A"\<close> gives an
  absent land value.
\<close>

theorem C2_unconvertible_is_absent:
  assumes "fld \<in> numeric_fields"
    and "conversion_fails fld (first_truthy (map (dict_get (feature_attrs f)) (aliases fld)))"
  shows "(\<forall>r. normalize frepr f = Inr r \<longrightarrow> record_field r fld = PNone)
         \<and> (\<forall>e. normalize frepr f = Inl e \<longrightarrow> normalize frepr (f\<lparr>attributes := None\<rparr>) = Inl e)
         \<and> (\<forall>v e. py_float v = Inl e \<longrightarrow> norm_float v = None \<and> norm_int v = None)
         \<and> norm_float (PStr ''N/A'') = None
         \<and> (\<forall>r. normalize frepr f = Inr r
                 \<and> map_of (feature_attrs f) ''LAND_VALUE'' = Some (PStr ''N/A'')
               \<longrightarrow> land_value r = None)"
proof (intro conjI allI impI)
  fix r assume "normalize frepr f = Inr r"
  from normalize_field [OF this, of fld] assms show "record_field r fld = PNone"
    by (simp add: coerce_fails)
next
  fix e assume "normalize frepr f = Inl e"
  then show "normalize frepr (f\<lparr>attributes := None\<rparr>) = Inl e"
    by (rule normalize_attrs_irrelevant)
next
  fix v e assume "py_float v = Inl e"
  then show "norm_float v = None" by (simp add: norm_float_def)
next
  fix v e assume "py_float v = Inl e"
  then show "norm_int v = None" by (simp add: norm_int_def)
next
  show "norm_float (PStr ''N/A'') = None"
    by (simp add: norm_float_def float_of_str_NA)
next
  fix r assume a: "normalize frepr f = Inr r
                 \<and> map_of (feature_attrs f) ''LAND_VALUE'' = Some (PStr ''N/A'')"
  then have "first_truthy (map (dict_get (feature_attrs f)) (aliases F_land_value)) = PStr ''N/A''"
    by (simp add: first_truthy_def dict_get_def)
  with a normalize_field [of frepr f r F_land_value] show "land_value r = None"
    by (simp add: coerce_def float_fields_def norm_float_def float_of_str_NA split: option.splits)
qed

theorem C2_unconvertible_is_absent_witness:
  "normalize repr_whole \<lparr> attributes = Some [(''LAND_VALUE'', PStr ''N/A'')], geometry = None \<rparr>
     = Inr PropertyRecord_default
   \<and> record_field PropertyRecord_default F_land_value = PNone
   \<and> land_value PropertyRecord_default = None"
proof -
  have n: "normalize repr_whole \<lparr> attributes = Some [(''LAND_VALUE'', PStr ''N/A'')], geometry = None \<rparr>
     = Inr PropertyRecord_default"
    by (simp add: normalize_def feature_attrs_def feature_geom_def dict_get_def py_or_def
          str_or_none_def norm_float_def norm_int_def coord_or_none_def
          PropertyRecord_default_def float_of_str_NA)
  have m: "F_land_value \<in> numeric_fields" by (simp add: numeric_fields_def float_fields_def)
  have c: "conversion_fails F_land_value
             (first_truthy (map (dict_get (feature_attrs
                \<lparr> attributes = Some [(''LAND_VALUE'', PStr ''N/A'')], geometry = None \<rparr>))
                (aliases F_land_value)))"
    by (simp add: feature_attrs_def dict_get_def first_truthy_def conversion_fails_def
          float_of_str_NA)
  have k: "map_of (feature_attrs \<lparr> attributes = Some [(''LAND_VALUE'', PStr ''N/A'')], geometry = None \<rparr>)
             ''LAND_VALUE'' = Some (PStr ''N/A'')"
    by (simp add: feature_attrs_def)
  from C2_unconvertible_is_absent [OF m c, of repr_whole] n k show ?thesis
    by blast
qed

text \<open>
  Claim C7 is that normalization never raises. A whole-number coordinate beyond the
  range of a double makes \<^verbatim>\<open>float(x)\<close> raise, outside any \<^verbatim>\<open>try\<close>.
\<close>

theorem C7_normalize_raises:
  "normalize frepr \<lparr> attributes = Some [], geometry = Some [(''x'', PInt (10 ^ 400)), (''y'', PInt 0)] \<rparr>
     = Inl OverflowError"
  by (simp add: normalize_Inl feature_geom_def dict_get_def coord_or_none_def DBL_OVERFLOW_def)

section \<open>Properties of search and export\<close>

lemma geocode_address_calls:
  "snd (geocode_address ev q calls) = calls @ [NominatimGet q]"
  by (simp add: geocode_address_def Let_def split: sum.splits option.splits list.splits)

lemma geocode_address_no_candidates:
  assumes "nominatim ev q = Inr resp" "status_code resp = 200" "json resp = Some []"
  shows "geocode_address ev q calls = (Inl (HTTPException 404 ''Address not found''), calls @ [NominatimGet q])"
  using assms by (simp add: geocode_address_def)

lemma query_nearby_calls:
  "snd (query_nearby frepr ev lo la radius calls) =
     calls @ [ArcGISQuery (nearby_params frepr lo la radius)]"
  by (simp add: query_nearby_def Let_def split: sum.splits option.splits)

lemma search_properties_geocode_fails:
  assumes "geocode_address ev (req_address req @ '', '' @ county req) calls = (Inl e, calls1)"
  shows "search_properties frepr ev req calls = (Inl e, calls1)"
  using assms by (simp add: search_properties_def)

lemma search_properties_calls:
  assumes "geocode_address ev (req_address req @ '', '' @ county req) calls = (Inr cs, calls1)"
  shows "snd (search_properties frepr ev req calls) =
           calls1 @ [ArcGISQuery (nearby_params frepr (lon cs) (lat cs) (radius_miles req))]"
proof -
  obtain res calls2
    where q: "query_nearby frepr ev (lon cs) (lat cs) (radius_miles req) calls1 = (res, calls2)"
    by (cases "query_nearby frepr ev (lon cs) (lat cs) (radius_miles req) calls1")
  then have "calls2 = calls1 @ [ArcGISQuery (nearby_params frepr (lon cs) (lat cs) (radius_miles req))]"
    using query_nearby_calls [of frepr ev "lon cs" "lat cs" "radius_miles req" calls1] by simp
  with assms q show ?thesis
    by (simp add: search_properties_def split: sum.splits)
qed

lemma search_properties_first_call:
  "\<exists>rest. snd (search_properties frepr ev req calls) =
            calls @ NominatimGet (req_address req @ '', '' @ county req) # rest"
proof -
  obtain res calls1
    where g: "geocode_address ev (req_address req @ '', '' @ county req) calls = (res, calls1)"
    by (cases "geocode_address ev (req_address req @ '', '' @ county req) calls")
  then have c1: "calls1 = calls @ [NominatimGet (req_address req @ '', '' @ county req)]"
    using geocode_address_calls [of ev "req_address req @ '', '' @ county req" calls] by simp
  show ?thesis
  proof (cases res)
    case (Inl e)
    with g c1 show ?thesis by (simp add: search_properties_geocode_fails)
  next
    case (Inr cs)
    with g c1 search_properties_calls [of ev req calls cs calls1 frepr] show ?thesis by simp
  qed
qed

lemma export_properties_empty:
  assumes "fst (search_properties frepr ev req calls) = Inr []"
  shows "fst (export_properties frepr ev req calls) =
           Inl (HTTPException 404 ''No properties found for the specified criteria'')"
  using assms by (auto simp: export_properties_def split: prod.splits sum.splits)

lemma DBL_OVERFLOW_pos: "0 < DBL_OVERFLOW"
  by (simp add: DBL_OVERFLOW_def)

text \<open>
  Claim C6. When the address lookup answers with an empty candidate list, search fails
  with "Address not found" (status 404), and the only request sent is the lookup: the
  feature service is never queried.
\<close>

theorem C6_address_not_found:
  assumes "nominatim ev (req_address req @ '', '' @ county req) = Inr resp"
    and "status_code resp = 200"
    and "json resp = Some []"
  shows "search_properties frepr ev req calls =
           (Inl (HTTPException 404 ''Address not found''),
            calls @ [NominatimGet (req_address req @ '', '' @ county req)])
         \<and> (\<forall>p. ArcGISQuery p \<notin> set (snd (search_properties frepr ev req [])))"
proof -
  have "search_properties frepr ev req cl =
           (Inl (HTTPException 404 ''Address not found''),
            cl @ [NominatimGet (req_address req @ '', '' @ county req)])" for cl
    by (rule search_properties_geocode_fails) (rule geocode_address_no_candidates [OF assms])
  then show ?thesis by simp
qed

theorem C6_address_not_found_witness:
  "search_properties repr_whole demo_env_no_match demo_request [] =
     (Inl (HTTPException 404 ''Address not found''),
      [NominatimGet ''123 Main St, Denton, TX, Denton County, TX''])"
proof -
  have a: "nominatim demo_env_no_match (req_address demo_request @ '', '' @ county demo_request)
             = Inr \<lparr> status_code = 200, resp_text = ''[]'', json = Some [] \<rparr>"
    by (simp add: demo_env_no_match_def demo_no_candidates_def)
  from C6_address_not_found [OF a, of repr_whole "[]"] show ?thesis
    by (simp add: demo_request_def)
qed

text \<open>
  Claim C5. When the feature service answers with an empty feature list, search
  returns the empty list, a success; export of a request whose search gives no record
  fails with "No properties found" (status 404) and produces no workbook.
\<close>

theorem C5_empty_result:
  assumes "geocode_address ev (req_address req @ '', '' @ county req) calls = (Inr cs, calls1)"
    and "arcgis ev (nearby_params frepr (lon cs) (lat cs) (radius_miles req)) = Inr resp"
    and "status_code resp = 200"
    and "json resp = Some data"
    and "error_entry data = None"
    and "features data = Some []"
  shows "fst (search_properties frepr ev req calls) = Inr []
         \<and> fst (export_properties frepr ev req calls) =
             Inl (HTTPException 404 ''No properties found for the specified criteria'')
         \<and> (\<forall>ev' req' calls'.
              fst (search_properties frepr ev' req' calls') = Inr [] \<longrightarrow>
              fst (export_properties frepr ev' req' calls') =
                Inl (HTTPException 404 ''No properties found for the specified criteria''))"
proof -
  have "fst (query_nearby frepr ev (lon cs) (lat cs) (radius_miles req) calls1) = Inr []"
    using assms(2-6) by (simp add: query_nearby_def Let_def)
  with assms(1) have s: "fst (search_properties frepr ev req calls) = Inr []"
    by (auto simp: search_properties_def split: prod.splits sum.splits)
  with export_properties_empty show ?thesis by blast
qed

theorem C5_empty_result_witness:
  "fst (search_properties repr_whole (demo_env []) demo_request []) = Inr []
   \<and> fst (export_properties repr_whole (demo_env []) demo_request []) =
       Inl (HTTPException 404 ''No properties found for the specified criteria'')"
proof -
  have f33: "float_of_str ''33'' = Inr (Fin 33)"
    by (simp add: float_of_str_def py_strip_def is_space_def is_digit_def parse_float_body_def
          parse_decimal_def parse_exponent_def nat_of_digits_def scale10_def fin_or_inf_def
          DBL_OVERFLOW_def)
  have f97: "float_of_str ''-97'' = Inr (Fin (- 97))"
    by (simp add: float_of_str_def py_strip_def is_space_def is_digit_def parse_float_body_def
          parse_decimal_def parse_exponent_def nat_of_digits_def scale10_def fin_or_inf_def
          DBL_OVERFLOW_def)
  have g: "geocode_address (demo_env []) (req_address demo_request @ '', '' @ county demo_request) []
             = (Inr \<lparr> lat = Fin 33, lon = Fin (- 97) \<rparr>,
                [NominatimGet (req_address demo_request @ '', '' @ county demo_request)])"
    by (simp add: geocode_address_def demo_env_def demo_candidates_def f33 f97)
  have a: "arcgis (demo_env [])
             (nearby_params repr_whole (lon \<lparr> lat = Fin 33, lon = Fin (- 97) \<rparr>)
                (lat \<lparr> lat = Fin 33, lon = Fin (- 97) \<rparr>) (radius_miles demo_request))
           = Inr \<lparr> status_code = 200, resp_text = ''<features>'',
                   json = Some \<lparr> error_entry = None, features = Some [] \<rparr> \<rparr>"
    by (simp add: demo_env_def demo_features_response_def)
  from C5_empty_result [OF g a, where data = "\<lparr> error_entry = None, features = Some [] \<rparr>"]
  show ?thesis by simp
qed

lemma demo_geocode:
  "geocode_address (demo_env fs) q calls =
     (Inr \<lparr> lat = Fin 33, lon = Fin (- 97) \<rparr>, calls @ [NominatimGet q])"
proof -
  have f33: "float_of_str ''33'' = Inr (Fin 33)"
    by (simp add: float_of_str_def py_strip_def is_space_def is_digit_def parse_float_body_def
          parse_decimal_def parse_exponent_def nat_of_digits_def scale10_def fin_or_inf_def
          DBL_OVERFLOW_def)
  have f97: "float_of_str ''-97'' = Inr (Fin (- 97))"
    by (simp add: float_of_str_def py_strip_def is_space_def is_digit_def parse_float_body_def
          parse_decimal_def parse_exponent_def nat_of_digits_def scale10_def fin_or_inf_def
          DBL_OVERFLOW_def)
  show ?thesis
    by (simp add: geocode_address_def demo_env_def demo_candidates_def f33 f97)
qed

lemma demo_query:
  "query_nearby frepr (demo_env fs) lo la radius calls =
     (Inr fs, calls @ [ArcGISQuery (nearby_params frepr lo la radius)])"
  by (simp add: query_nearby_def demo_env_def demo_features_response_def)

lemma normalize_all_Inr:
  "normalize_all frepr fs = Inr records \<longleftrightarrow> map Inr records = map (normalize frepr) fs"
proof (induction fs arbitrary: records)
  case Nil
  then show ?case by auto
next
  case (Cons f fs)
  show ?case
  proof (cases "normalize frepr f")
    case (Inl e)
    then show ?thesis by (cases records) auto
  next
    case r: (Inr r)
    show ?thesis
    proof (cases "normalize_all frepr fs")
      case (Inl e)
      with Cons.IH r show ?thesis by (cases records) auto
    next
      case (Inr rs)
      with Cons.IH [of rs] have "map Inr rs = map (normalize frepr) fs" by simp
      with r Inr show ?thesis
        by (cases records) (auto simp: inj_map_eq_map [OF inj_Inr] dest: sym)
    qed
  qed
qed

lemma normalize_all_returns:
  assumes "\<forall>f \<in> set fs. \<exists>r. normalize frepr f = Inr r"
  shows "\<exists>records. normalize_all frepr fs = Inr records"
  using assms by (induction fs) (auto split: sum.splits)

lemma filter_zip_records:
  assumes "map g records = map n fs"
  shows "map g (map fst (filter (\<lambda>(r, f). P f) (zip records fs))) = map n (filter P fs)"
  using assms
proof (induction fs arbitrary: records)
  case Nil
  then show ?case by simp
next
  case (Cons f fs)
  then obtain r rs where "records = r # rs" by (cases records) auto
  with Cons show ?case by auto
qed

text \<open>
  Claim C3. For every list of features the feature service returns, each of which
  normalizes, a search with \<^verbatim>\<open>single_family_only\<close> returns exactly the normalized
  records of the features whose raw attributes satisfy the classifier, in the order of
  the features.
\<close>

theorem C3_single_family_filter:
  assumes "geocode_address ev (req_address req @ '', '' @ county req) calls = (Inr cs, calls1)"
    and "query_nearby frepr ev (lon cs) (lat cs) (radius_miles req) calls1 = (Inr fs, calls2)"
    and "single_family_only req"
    and "\<forall>f \<in> set fs. \<exists>r. normalize frepr f = Inr r"
  shows "\<exists>rs. fst (search_properties frepr ev req calls) = Inr rs
              \<and> map Inr rs =
                  map (normalize frepr)
                    (filter (\<lambda>f. is_single_family frepr (feature_attrs f)) fs)"
proof -
  obtain records where n: "normalize_all frepr fs = Inr records"
    using normalize_all_returns [OF assms(4)] by blast
  let ?rs = "map fst (filter (\<lambda>(r, f). is_single_family frepr (feature_attrs f)) (zip records fs))"
  have "fst (search_properties frepr ev req calls) = Inr ?rs"
    using assms(1-3) n by (simp add: search_properties_def)
  moreover have "map Inr ?rs =
      map (normalize frepr) (filter (\<lambda>f. is_single_family frepr (feature_attrs f)) fs)"
    using n unfolding normalize_all_Inr by (rule filter_zip_records)
  ultimately show ?thesis by blast
qed

theorem C3_single_family_filter_witness:
  "fst (search_properties repr_whole (demo_env demo_features) demo_request []) =
     Inr [ PropertyRecord_default \<lparr> parcel_id := Some ''R1'', land_use := Some ''Single Family'' \<rparr>,
           PropertyRecord_default \<lparr> parcel_id := Some ''R3'', property_class := Some ''A1 SF'' \<rparr> ]"
proof -
  have sfo: "single_family_only demo_request"
    by (simp add: demo_request_def)
  have n1: "normalize repr_whole demo_house =
              Inr (PropertyRecord_default \<lparr> parcel_id := Some ''R1'', land_use := Some ''Single Family'' \<rparr>)"
    by (simp add: demo_house_def normalize_def feature_attrs_def feature_geom_def dict_get_def
          py_or_def str_or_none_def norm_float_def norm_int_def coord_or_none_def
          PropertyRecord_default_def)
  have n2: "normalize repr_whole demo_shop =
              Inr (PropertyRecord_default \<lparr> parcel_id := Some ''R2'', land_use := Some ''Commercial'' \<rparr>)"
    by (simp add: demo_shop_def normalize_def feature_attrs_def feature_geom_def dict_get_def
          py_or_def str_or_none_def norm_float_def norm_int_def coord_or_none_def
          PropertyRecord_default_def)
  have n3: "normalize repr_whole demo_cottage =
              Inr (PropertyRecord_default \<lparr> parcel_id := Some ''R3'', property_class := Some ''A1 SF'' \<rparr>)"
    by (simp add: demo_cottage_def normalize_def feature_attrs_def feature_geom_def dict_get_def
          py_or_def str_or_none_def norm_float_def norm_int_def coord_or_none_def
          PropertyRecord_default_def)
  have all: "\<forall>f \<in> set demo_features. \<exists>r. normalize repr_whole f = Inr r"
    by (simp add: demo_features_def n1 n2 n3)
  have s1: "is_single_family repr_whole (feature_attrs demo_house)"
    by (simp add: demo_house_def feature_attrs_def is_single_family_text sf_text_def
          sf_fields_def py_upper_def char_eval sublist_Cons_right)
  have s2: "\<not> is_single_family repr_whole (feature_attrs demo_shop)"
    by (simp add: demo_shop_def feature_attrs_def is_single_family_text sf_text_def
          sf_fields_def py_upper_def char_eval sublist_Cons_right)
  have s3: "is_single_family repr_whole (feature_attrs demo_cottage)"
    by (simp add: demo_cottage_def feature_attrs_def is_single_family_text sf_text_def
          sf_fields_def py_upper_def char_eval sublist_Cons_right)
  have flt: "filter (\<lambda>f. is_single_family repr_whole (feature_attrs f)) demo_features
               = [demo_house, demo_cottage]"
    by (simp add: demo_features_def s1 s2 s3)
  from C3_single_family_filter [OF demo_geocode demo_query sfo all]
  obtain rs where r: "fst (search_properties repr_whole (demo_env demo_features) demo_request []) = Inr rs"
    and m: "map Inr rs = map (normalize repr_whole)
              (filter (\<lambda>f. is_single_family repr_whole (feature_attrs f)) demo_features)"
    by blast
  from m have "map Inr rs =
      [Inr (PropertyRecord_default \<lparr> parcel_id := Some ''R1'', land_use := Some ''Single Family'' \<rparr>),
       Inr (PropertyRecord_default \<lparr> parcel_id := Some ''R3'', property_class := Some ''A1 SF'' \<rparr>)
         :: pyexc + PropertyRecord]"
    by (simp add: flt n1 n3)
  then have "rs =
      [PropertyRecord_default \<lparr> parcel_id := Some ''R1'', land_use := Some ''Single Family'' \<rparr>,
       PropertyRecord_default \<lparr> parcel_id := Some ''R3'', property_class := Some ''A1 SF'' \<rparr>]"
    by (auto simp: map_eq_Cons_conv)
  with r show ?thesis by simp
qed

text \<open>
  Claim C9. The distance sent to the feature service is the radius in miles times
  1609.34, with the unit set to meters: for every radius \<open>r > 0\<close> whose product stays in
  the range of a double it is \<open>r * 1609.34\<close>, for 2.0 it is \<open>2.0 * 1609.34\<close>; and search
  hands the request's radius over in miles, unconverted.
\<close>

theorem C9_radius_in_meters:
  "distance (nearby_params frepr lo la r) = py_fmul r (Fin 1609.34)
   \<and> units (nearby_params frepr lo la r) = ''esriSRUnit_Meter''
   \<and> (\<forall>x. 0 < x \<and> x * 1609.34 < of_int DBL_OVERFLOW \<longrightarrow>
          distance (nearby_params frepr lo la (Fin x)) = Fin (x * 1609.34))
   \<and> distance (nearby_params frepr lo la (Fin 2.0)) = Fin (2.0 * 1609.34)
   \<and> (\<forall>cs calls1.
          geocode_address ev (req_address req @ '', '' @ county req) calls = (Inr cs, calls1) \<longrightarrow>
          snd (search_properties frepr ev req calls) =
            calls1 @ [ArcGISQuery (nearby_params frepr (lon cs) (lat cs) (radius_miles req))])"
proof (intro conjI allI impI)
  show "distance (nearby_params frepr lo la r) = py_fmul r (Fin 1609.34)"
    by (simp add: nearby_params_def miles_to_meters_def)
  show "units (nearby_params frepr lo la r) = ''esriSRUnit_Meter''"
    by (simp add: nearby_params_def)
next
  fix x :: real
  assume a: "0 < x \<and> x * 1609.34 < of_int DBL_OVERFLOW"
  then have "0 < x * 1609.34" by simp
  moreover have "(0::real) < of_int DBL_OVERFLOW" using DBL_OVERFLOW_pos by simp
  ultimately have "fin_or_inf (x * 1609.34) = Fin (x * 1609.34)"
    using a by (simp add: fin_or_inf_def)
  then show "distance (nearby_params frepr lo la (Fin x)) = Fin (x * 1609.34)"
    by (simp add: nearby_params_def miles_to_meters_def)
next
  show "distance (nearby_params frepr lo la (Fin 2.0)) = Fin (2.0 * 1609.34)"
    by (simp add: nearby_params_def miles_to_meters_def fin_or_inf_def DBL_OVERFLOW_def)
next
  fix cs calls1
  assume "geocode_address ev (req_address req @ '', '' @ county req) calls = (Inr cs, calls1)"
  then show "snd (search_properties frepr ev req calls) =
            calls1 @ [ArcGISQuery (nearby_params frepr (lon cs) (lat cs) (radius_miles req))]"
    by (rule search_properties_calls)
qed

theorem C9_radius_in_meters_witness:
  "distance (nearby_params repr_whole (Fin (- 97)) (Fin 33) (Fin 2.0)) = Fin 3218.68
   \<and> units (nearby_params repr_whole (Fin (- 97)) (Fin 33) (Fin 2.0)) = ''esriSRUnit_Meter''
   \<and> snd (search_properties repr_whole (demo_env []) demo_request []) =
       [ NominatimGet ''123 Main St, Denton, TX, Denton County, TX'',
         ArcGISQuery (nearby_params repr_whole (Fin (- 97)) (Fin 33) (Fin 2.0)) ]"
proof -
  have x: "(0::real) < 2.0 \<and> (2.0::real) * 1609.34 < of_int DBL_OVERFLOW"
    by (simp add: DBL_OVERFLOW_def)
  note t = C9_radius_in_meters [of repr_whole "Fin (- 97)" "Fin 33" "Fin 2.0" "demo_env []" demo_request "[]"]
  from t x have "distance (nearby_params repr_whole (Fin (- 97)) (Fin 33) (Fin 2.0)) = Fin (2.0 * 1609.34)"
    by blast
  moreover from t have "units (nearby_params repr_whole (Fin (- 97)) (Fin 33) (Fin 2.0)) = ''esriSRUnit_Meter''"
    by blast
  moreover from t demo_geocode [of "[]" "req_address demo_request @ '', '' @ county demo_request" "[]"]
  have "snd (search_properties repr_whole (demo_env []) demo_request []) =
          ([] @ [NominatimGet (req_address demo_request @ '', '' @ county demo_request)])
            @ [ArcGISQuery (nearby_params repr_whole (lon \<lparr> lat = Fin 33, lon = Fin (- 97) \<rparr>)
                 (lat \<lparr> lat = Fin 33, lon = Fin (- 97) \<rparr>) (radius_miles demo_request))]"
    by blast
  ultimately show ?thesis
    by (simp add: demo_request_def)
qed

text \<open>
  Claim C8, as amended. Validation requires \<^verbatim>\<open>address\<close>: a request without it is
  rejected, and any string, the empty one too, is accepted. \<^verbatim>\<open>county\<close> defaults to
  "Denton County, TX", and search appends the county to the address for the lookup;
  \<^verbatim>\<open>radius_miles\<close> must be greater than 0 and defaults to 2.0;
  \<^verbatim>\<open>single_family_only\<close> defaults to true.
\<close>

theorem C8_validation:
  "(raw_address raw = None \<longrightarrow>
      (\<exists>errs. validate_SearchRequest raw = Inl (ValidationError errs) \<and> ''address'' \<in> set errs))
   \<and> (\<forall>x. raw_radius_miles raw = Some x \<and> \<not> fgt0 x \<longrightarrow>
      (\<exists>errs. validate_SearchRequest raw = Inl (ValidationError errs) \<and> ''radius_miles'' \<in> set errs))
   \<and> (\<forall>a. raw_address raw = Some a \<and> (\<forall>x. raw_radius_miles raw = Some x \<longrightarrow> fgt0 x) \<longrightarrow>
      validate_SearchRequest raw =
        Inr \<lparr> req_address = a,
              county = (case raw_county raw of None \<Rightarrow> ''Denton County, TX'' | Some c \<Rightarrow> c),
              radius_miles = (case raw_radius_miles raw of None \<Rightarrow> Fin 2.0 | Some x \<Rightarrow> x),
              single_family_only = (case raw_single_family_only raw of None \<Rightarrow> True | Some b \<Rightarrow> b) \<rparr>)
   \<and> (\<exists>rest. snd (search_properties frepr ev req calls) =
                calls @ NominatimGet (req_address req @ '', '' @ county req) # rest)"
proof (intro conjI allI impI)
  assume "raw_address raw = None"
  then show "\<exists>errs. validate_SearchRequest raw = Inl (ValidationError errs) \<and> ''address'' \<in> set errs"
    by (simp add: validate_SearchRequest_def Let_def)
next
  fix x assume "raw_radius_miles raw = Some x \<and> \<not> fgt0 x"
  then show "\<exists>errs. validate_SearchRequest raw = Inl (ValidationError errs) \<and> ''radius_miles'' \<in> set errs"
    by (simp add: validate_SearchRequest_def Let_def)
next
  fix a assume "raw_address raw = Some a \<and> (\<forall>x. raw_radius_miles raw = Some x \<longrightarrow> fgt0 x)"
  then show "validate_SearchRequest raw =
        Inr \<lparr> req_address = a,
              county = (case raw_county raw of None \<Rightarrow> ''Denton County, TX'' | Some c \<Rightarrow> c),
              radius_miles = (case raw_radius_miles raw of None \<Rightarrow> Fin 2.0 | Some x \<Rightarrow> x),
              single_family_only = (case raw_single_family_only raw of None \<Rightarrow> True | Some b \<Rightarrow> b) \<rparr>"
    by (auto simp: validate_SearchRequest_def Let_def split: option.splits)
next
  show "\<exists>rest. snd (search_properties frepr ev req calls) =
                calls @ NominatimGet (req_address req @ '', '' @ county req) # rest"
    by (rule search_properties_first_call)
qed

theorem C8_validation_witness:
  "validate_SearchRequest
     \<lparr> raw_address = Some ''123 Main St'', raw_county = None, raw_radius_miles = None,
       raw_single_family_only = None \<rparr>
     = Inr \<lparr> req_address = ''123 Main St'', county = ''Denton County, TX'',
             radius_miles = Fin 2.0, single_family_only = True \<rparr>
   \<and> (\<exists>errs. validate_SearchRequest
        \<lparr> raw_address = None, raw_county = None, raw_radius_miles = Some (Fin 0),
          raw_single_family_only = None \<rparr> = Inl (ValidationError errs)
        \<and> ''address'' \<in> set errs \<and> ''radius_miles'' \<in> set errs)"
proof -
  have "raw_address \<lparr> raw_address = Some ''123 Main St'', raw_county = None,
                      raw_radius_miles = None, raw_single_family_only = None \<rparr> = Some ''123 Main St''
      \<and> (\<forall>x. raw_radius_miles \<lparr> raw_address = Some ''123 Main St'', raw_county = None,
                      raw_radius_miles = None, raw_single_family_only = None \<rparr> = Some x \<longrightarrow> fgt0 x)"
    by simp
  with C8_validation [of "\<lparr> raw_address = Some ''123 Main St'', raw_county = None,
                      raw_radius_miles = None, raw_single_family_only = None \<rparr>"
                      repr_whole demo_env_no_match demo_request "[]"]
  have a: "validate_SearchRequest
     \<lparr> raw_address = Some ''123 Main St'', raw_county = None, raw_radius_miles = None,
       raw_single_family_only = None \<rparr>
     = Inr \<lparr> req_address = ''123 Main St'', county = ''Denton County, TX'',
             radius_miles = Fin 2.0, single_family_only = True \<rparr>"
    by simp
  note t = C8_validation [of "\<lparr> raw_address = None, raw_county = None, raw_radius_miles = Some (Fin 0),
          raw_single_family_only = None \<rparr>" repr_whole demo_env_no_match demo_request "[]"]
  from t obtain errs1 where e1: "validate_SearchRequest
        \<lparr> raw_address = None, raw_county = None, raw_radius_miles = Some (Fin 0),
          raw_single_family_only = None \<rparr> = Inl (ValidationError errs1)"
      and m1: "''address'' \<in> set errs1"
    by auto
  have "raw_radius_miles \<lparr> raw_address = None, raw_county = None, raw_radius_miles = Some (Fin 0),
          raw_single_family_only = None \<rparr> = Some (Fin 0) \<and> \<not> fgt0 (Fin 0)"
    by simp
  with t obtain errs2 where e2: "validate_SearchRequest
        \<lparr> raw_address = None, raw_county = None, raw_radius_miles = Some (Fin 0),
          raw_single_family_only = None \<rparr> = Inl (ValidationError errs2)"
      and m2: "''radius_miles'' \<in> set errs2"
    by blast
  from e1 e2 have "errs1 = errs2" by simp
  with e1 m1 m2 have b: "\<exists>errs. validate_SearchRequest
        \<lparr> raw_address = None, raw_county = None, raw_radius_miles = Some (Fin 0),
          raw_single_family_only = None \<rparr> = Inl (ValidationError errs)
        \<and> ''address'' \<in> set errs \<and> ''radius_miles'' \<in> set errs"
    by blast
  from a b show ?thesis by blast
qed

text \<open>
  Claim C8, as stated, fails: a request carrying the empty address passes validation.
\<close>

theorem C8_counterexample:
  "validate_SearchRequest
     \<lparr> raw_address = Some '''', raw_county = None, raw_radius_miles = None,
       raw_single_family_only = None \<rparr>
     = Inr \<lparr> req_address = '''', county = ''Denton County, TX'',
             radius_miles = Fin 2.0, single_family_only = True \<rparr>"
  by (simp add: validate_SearchRequest_def)

end
